theory Spec2Isabelle
  imports Main "HOL-Library.AList"
begin

section \<open>Python strings\<close>

text \<open>
  The operations of Python's \<^verbatim>\<open>str\<close> that \<^verbatim>\<open>sparc_me/core/dataset.py\<close> uses.
  A string is a \<^typ>\<open>string\<close>: the list of its characters, each with its code. The
  type \<^typ>\<open>char\<close> has the codes 0 to 255, which are the characters of Latin-1; the strings
  modelled are those of such characters.
\<close>

text \<open>\<^verbatim>\<open>s.startswith(p)\<close>\<close>

fun startswith :: "string \<Rightarrow> string \<Rightarrow> bool" where
  "startswith s [] = True"
| "startswith [] (p # ps) = False"
| "startswith (c # cs) (p # ps) = (c = p \<and> startswith cs ps)"

text \<open>\<^verbatim>\<open>sub in s\<close>: \<^verbatim>\<open>sub\<close> occurs in \<^verbatim>\<open>s\<close> as a contiguous substring.\<close>

fun py_in :: "string \<Rightarrow> string \<Rightarrow> bool" where
  "py_in sub [] = (sub = [])"
| "py_in sub (c # cs) = (startswith (c # cs) sub \<or> py_in sub cs)"

text \<open>
  \<^verbatim>\<open>s.replace(old, new)\<close>: every non-overlapping occurrence of \<^verbatim>\<open>old\<close>, found from
  the left, is replaced. The counter \<open>k\<close> is the number of characters of \<open>s\<close> still covered
  by the occurrence that was just replaced. An empty \<^verbatim>\<open>old\<close> matches before every character
  and at the end.
\<close>

fun replace_from :: "nat \<Rightarrow> string \<Rightarrow> string \<Rightarrow> string \<Rightarrow> string" where
  "replace_from k old new [] = []"
| "replace_from (Suc k) old new (c # cs) = replace_from k old new cs"
| "replace_from 0 old new (c # cs) =
     (if startswith (c # cs) old
      then new @ replace_from (length old - 1) old new cs
      else c # replace_from 0 old new cs)"

definition py_replace :: "string \<Rightarrow> string \<Rightarrow> string \<Rightarrow> string" where
  "py_replace s old new =
     (if old = [] then new @ concat (map (\<lambda>c. c # new) s)
      else replace_from 0 old new s)"

text \<open>
  \<^verbatim>\<open>s.lower()\<close>: every cased character becomes its lower-case one. Among the codes
  0 to 255 the upper-case characters are \<^verbatim>\<open>A\<close> to \<^verbatim>\<open>Z\<close> (65 to 90) and the letters
  with the codes 192 to 222 other than the multiplication sign (215); the lower-case
  character of each has the code 32 higher.
\<close>

definition is_upper :: "nat \<Rightarrow> bool" where
  "is_upper n = ((65 \<le> n \<and> n \<le> 90) \<or> (192 \<le> n \<and> n \<le> 222 \<and> n \<noteq> 215))"

definition lower_char :: "char \<Rightarrow> char" where
  "lower_char c =
     (let n = (of_char c :: nat)
      in if is_upper n then char_of (n + 32) else c)"

definition py_lower :: "string \<Rightarrow> string" where
  "py_lower s = map lower_char s"

section \<open>Template resolver\<close>

text \<open>
  \<^verbatim>\<open>Dataset._convert_version_format\<close>:
  \<^verbatim>\<open>version = version.replace(".", "_")\<close>, then \<^verbatim>\<open>"_0_0"\<close> is appended when
  \<^verbatim>\<open>"_" not in version\<close>.
\<close>

definition convert_version_format :: "string \<Rightarrow> string" where
  "convert_version_format version =
     (let version = py_replace version ''.'' ''_''
      in if \<not> py_in ''_'' version then version @ ''_0_0'' else version)"

section \<open>Python values and exceptions\<close>

text \<open>
  The values that reach the functions modelled here: \<^verbatim>\<open>None\<close>, pandas' missing value
  \<^verbatim>\<open>NaN\<close>, integers, strings, lists and dictionaries with string keys (a dictionary is the
  list of its items in insertion order, as \<^verbatim>\<open>dict.items()\<close> yields them).
\<close>

datatype pyval =
    PNone
  | PNaN
  | PInt int
  | PStr string
  | PList "pyval list"
  | PDict "(string \<times> pyval) list"

text \<open>
  The exceptions the source raises. Every \<^verbatim>\<open>raise ValueError(msg)\<close> of the source is told
  apart by its message, and so is a \<^verbatim>\<open>ValueError\<close> that pandas raises in an assignment
  (the last three messages).
\<close>

datatype message =
    DatasetNotDefined
  | RowIndexNotInt
  | RowDoesNotExist
  | RowNameNotString
  | ProvideUniqueColumn
  | NoUniqueIdentifier
  | MoreThanOneRow
  | InvalidMetadataFile
  | SubjectIdNotString
  | SubjectNotFound
  | ProvidePathString
  | FolderNotExisting
  | NotAFolder
  | UnauthorizedManifestExtension
  | UnreadableTable
  | IncompatibleIndexer
  | LabelOutOfRange
  | UnequalLength

datatype error =
    ValueError message
  | TypeError
  | KeyError
  | IndexError
  | AttributeError
  | FileExistsError
  | FileNotFoundError
  | NotADirectoryError
  | OSError

section \<open>Data frames\<close>

text \<open>
  A pandas \<^verbatim>\<open>DataFrame\<close>: the column names in order, and the rows in order, each with its
  index label. A row holds its cells by column name; a column for which a row has no entry
  holds \<^verbatim>\<open>NaN\<close> there.
\<close>

type_synonym row = "(string \<times> pyval) list"

record dataframe =
  columns :: "string list"
  rows :: "(int \<times> row) list"

definition cell :: "row \<Rightarrow> string \<Rightarrow> pyval" where
  "cell r c = (case map_of r c of None \<Rightarrow> PNaN | Some v \<Rightarrow> v)"

definition isna :: "pyval \<Rightarrow> bool" where
  "isna v = (v = PNone \<or> v = PNaN)"

text \<open>
  One entry of the mask \<^verbatim>\<open>df[col] == value\<close>: a missing cell equals nothing, and nothing
  equals a missing value.
\<close>

definition cell_eq :: "pyval \<Rightarrow> pyval \<Rightarrow> bool" where
  "cell_eq c v = (\<not> isna c \<and> \<not> isna v \<and> c = v)"

text \<open>\<^verbatim>\<open>df.index[df[col] == value].tolist()\<close>: the labels of the rows whose cell matches.\<close>

definition matching_labels :: "dataframe \<Rightarrow> string \<Rightarrow> pyval \<Rightarrow> int list" where
  "matching_labels df col v = map fst (filter (\<lambda>(l, r). cell_eq (cell r col) v) (rows df))"

text \<open>
  What \<^verbatim>\<open>df.loc[label, col] = value\<close> stores when pandas accepts the value. A column that
  the frame does not have is added. When the label is in the index the cell of every row
  with that label is set; when it is not, pandas raises nothing and enlarges the frame: a
  row with that label is added at the end, with \<^verbatim>\<open>value\<close> in the column and \<^verbatim>\<open>NaN\<close>
  elsewhere.
\<close>

definition add_column :: "string \<Rightarrow> string list \<Rightarrow> string list" where
  "add_column c cols = (if c \<in> set cols then cols else cols @ [c])"

definition loc_store :: "int \<Rightarrow> string \<Rightarrow> pyval \<Rightarrow> dataframe \<Rightarrow> dataframe" where
  "loc_store l c v df =
     (if l \<in> set (map fst (rows df))
      then \<lparr>columns = add_column c (columns df),
            rows = map (\<lambda>(l', r). if l' = l then (l', AList.update c v r) else (l', r)) (rows df)\<rparr>
      else \<lparr>columns = add_column c (columns df),
            rows = rows df @ [(l, [(c, v)])]\<rparr>)"

text \<open>
  The integer labels of an index are 64-bit integers. A column has the dtype
  \<^verbatim>\<open>object\<close> when one of its cells holds something that is neither a number nor
  \<^verbatim>\<open>NaN\<close>.
\<close>

definition int64 :: "int \<Rightarrow> bool" where
  "int64 l = (- (2 ^ 63) \<le> l \<and> l < 2 ^ 63)"

definition object_cell :: "pyval \<Rightarrow> bool" where
  "object_cell v = (case v of PNaN \<Rightarrow> False | PInt n \<Rightarrow> False | _ \<Rightarrow> True)"

definition object_column :: "dataframe \<Rightarrow> string \<Rightarrow> bool" where
  "object_column df c = (c \<in> set (columns df) \<and> list_ex (\<lambda>(l, r). object_cell (cell r c)) (rows df))"

text \<open>
  \<^verbatim>\<open>df.loc[label, col] = value\<close> for an integer label and a column name, with the
  \<^verbatim>\<open>ValueError\<close>s of pandas:

    \<^item> a label that is no 64-bit integer is refused;

    \<^item> a dictionary is taken for a \<^verbatim>\<open>Series\<close> to align with the indexer, which fails for
      a single cell ("Incompatible indexer with Series");

    \<^item> a list of one element is stored as it is in a column of dtype \<^verbatim>\<open>object\<close> (nested
      data). What pandas does with any other list (it may take the list for the values of
      several cells and refuse it for its length, store its only element, or store the
      list) depends on the version of pandas and on how the frame keeps its columns in
      memory, which the values of the frame do not determine: it is the parameter
      \<open>list_value\<close>, the outcome of the assignment of such a list;

    \<^item> \<^verbatim>\<open>None\<close>, \<^verbatim>\<open>NaN\<close>, an integer and a string are stored.
\<close>

type_synonym list_rule = "int \<Rightarrow> string \<Rightarrow> pyval list \<Rightarrow> dataframe \<Rightarrow> error + dataframe"

definition loc_set :: "list_rule \<Rightarrow> int \<Rightarrow> string \<Rightarrow> pyval \<Rightarrow> dataframe \<Rightarrow> error + dataframe" where
  "loc_set list_value l c v df =
     (if \<not> int64 l then Inl (ValueError LabelOutOfRange)
      else case v of
          PDict items \<Rightarrow> Inl (ValueError IncompatibleIndexer)
        | PList xs \<Rightarrow>
            (if object_column df c \<and> length xs = 1 then Inr (loc_store l c v df)
             else list_value l c xs df)
        | _ \<Rightarrow> Inr (loc_store l c v df))"

text \<open>
  \<^verbatim>\<open>df.loc[mask, col] = value\<close> for a boolean mask: the cell of every row under a true
  entry is set, and a column that the frame does not have is added.
\<close>

definition mask_set :: "((int \<times> row) \<Rightarrow> bool) \<Rightarrow> string \<Rightarrow> pyval \<Rightarrow> dataframe \<Rightarrow> dataframe" where
  "mask_set m c v df =
     \<lparr>columns = add_column c (columns df),
      rows = map (\<lambda>(l, r). if m (l, r) then (l, AList.update c v r) else (l, r)) (rows df)\<rparr>"

text \<open>
  \<^verbatim>\<open>pd.concat([df, pd.DataFrame([row])], axis=0, ignore_index=True)\<close>: the row comes last,
  its keys that are no column yet become columns (in the order of the dictionary), and the
  index is renumbered from 0.
\<close>

definition renumber :: "row list \<Rightarrow> (int \<times> row) list" where
  "renumber rs = zip (map int [0 ..< length rs]) rs"

definition concat_row :: "dataframe \<Rightarrow> row \<Rightarrow> dataframe" where
  "concat_row df r =
     \<lparr>columns = columns df @ filter (\<lambda>k. k \<notin> set (columns df)) (map fst r),
      rows = renumber (map snd (rows df) @ [r])\<rparr>"

section \<open>Paths and the file system\<close>

text \<open>
  \<^verbatim>\<open>os.path.join\<close> on POSIX, for two arguments and for more.
\<close>

definition join2 :: "string \<Rightarrow> string \<Rightarrow> string" where
  "join2 a b =
     (if startswith b ''/'' then b
      else if a = [] \<or> last a = CHR ''/'' then a @ b
      else a @ ''/'' @ b)"


text \<open>
  \<^verbatim>\<open>str(PurePosixPath(s))\<close>, which is also \<^verbatim>\<open>Path(s).as_posix()\<close>: the components of
  \<^verbatim>\<open>s\<close> between slashes, without the empty ones and the \<^verbatim>\<open>.\<close> ones, joined by single
  slashes after the root (\<^verbatim>\<open>/\<close>, or \<^verbatim>\<open>//\<close> for exactly two leading slashes); the empty
  path is \<^verbatim>\<open>.\<close>.
\<close>

fun split_sep :: "string \<Rightarrow> string list" where
  "split_sep [] = [[]]"
| "split_sep (c # cs) =
     (if c = CHR ''/'' then [] # split_sep cs
      else (case split_sep cs of [] \<Rightarrow> [[c]] | x # xs \<Rightarrow> (c # x) # xs))"

definition parts :: "string \<Rightarrow> string list" where
  "parts s = filter (\<lambda>c. c \<noteq> [] \<and> c \<noteq> ''.'') (split_sep s)"

definition root_of :: "string \<Rightarrow> string" where
  "root_of s =
     (if startswith s ''//'' \<and> \<not> startswith s ''///'' then ''//''
      else if startswith s ''/'' then ''/''
      else [])"

fun join_parts :: "string list \<Rightarrow> string" where
  "join_parts [] = []"
| "join_parts [c] = c"
| "join_parts (c # d # cs) = c @ ''/'' @ join_parts (d # cs)"

definition as_posix :: "string \<Rightarrow> string" where
  "as_posix s = (let r = root_of s @ join_parts (parts s) in if r = [] then ''.'' else r)"

text \<open>\<^verbatim>\<open>Path(p) / name\<close> and \<^verbatim>\<open>Path(p).name\<close>, on the strings of the paths.\<close>

definition joinpath :: "string \<Rightarrow> string \<Rightarrow> string" where
  "joinpath p name = as_posix (join2 (as_posix p) name)"

definition path_name :: "string \<Rightarrow> string" where
  "path_name p = (case parts p of [] \<Rightarrow> [] | c # cs \<Rightarrow> last (c # cs))"

text \<open>\<^verbatim>\<open>os.path.basename(p)\<close>: what follows the last slash.\<close>

definition basename :: "string \<Rightarrow> string" where
  "basename p = rev (takeWhile (\<lambda>c. c \<noteq> CHR ''/'') (rev p))"

text \<open>
  \<^verbatim>\<open>os.path.splitext(p)[-1]\<close>: the extension is what starts at the last dot of the last
  component, unless only dots come before that dot in the component.
\<close>

definition splitext_ext :: "string \<Rightarrow> string" where
  "splitext_ext p =
     (let name = basename p;
          suffix = takeWhile (\<lambda>c. c \<noteq> CHR ''.'') (rev name);
          stem = take (length name - length suffix - 1) name
      in if CHR ''.'' \<in> set name \<and> list_ex (\<lambda>c. c \<noteq> CHR ''.'') stem
         then CHR ''.'' # rev suffix
         else [])"

text \<open>
  The file system: the nodes by the components of their paths (a relative path is taken
  from the root), in the order in which \<^verbatim>\<open>os.listdir\<close> and \<^verbatim>\<open>Path.iterdir\<close> yield
  them. A regular file that holds a table holds it as the frame that pandas reads from it
  (\<^verbatim>\<open>pd.read_excel\<close>, \<^verbatim>\<open>pd.read_csv\<close> or \<^verbatim>\<open>pd.read_json\<close>, by its extension).
\<close>

datatype node = Dir | File "dataframe option"

type_synonym filesystem = "(string list \<times> node) list"

definition lookup :: "filesystem \<Rightarrow> string \<Rightarrow> node option" where
  "lookup fs p = (if parts p = [] then Some Dir else map_of fs (parts p))"

definition path_exists :: "filesystem \<Rightarrow> string \<Rightarrow> bool" where
  "path_exists fs p = (lookup fs p \<noteq> None)"

definition is_dir :: "filesystem \<Rightarrow> string \<Rightarrow> bool" where
  "is_dir fs p = (lookup fs p = Some Dir)"

definition is_file :: "filesystem \<Rightarrow> string \<Rightarrow> bool" where
  "is_file fs p = (case lookup fs p of Some (File c) \<Rightarrow> True | _ \<Rightarrow> False)"

definition children :: "filesystem \<Rightarrow> string list \<Rightarrow> string list" where
  "children fs k = map (\<lambda>(q, n). last q) (filter (\<lambda>(q, n). q \<noteq> [] \<and> butlast q = k) fs)"

text \<open>\<^verbatim>\<open>os.listdir(p)\<close>; \<^verbatim>\<open>Path(p).iterdir()\<close> yields these names joined to \<^verbatim>\<open>p\<close>.\<close>

definition listdir :: "filesystem \<Rightarrow> string \<Rightarrow> error + string list" where
  "listdir fs p =
     (case lookup fs p of
        None \<Rightarrow> Inl FileNotFoundError
      | Some (File c) \<Rightarrow> Inl NotADirectoryError
      | Some Dir \<Rightarrow> Inr (children fs (parts p)))"

definition iterdir :: "filesystem \<Rightarrow> string \<Rightarrow> error + string list" where
  "iterdir fs p =
     (case listdir fs p of
        Inl e \<Rightarrow> Inl e
      | Inr names \<Rightarrow> Inr (map (joinpath p) names))"

text \<open>Writing a node: in place when the path has one, as a new last node otherwise.\<close>

definition write_node :: "string \<Rightarrow> node \<Rightarrow> filesystem \<Rightarrow> filesystem" where
  "write_node p n fs = AList.update (parts p) n fs"

text \<open>\<^verbatim>\<open>Path.unlink\<close> of a regular file.\<close>

definition unlink :: "string \<Rightarrow> filesystem \<Rightarrow> filesystem" where
  "unlink p fs = filter (\<lambda>(q, n). q \<noteq> parts p) fs"

text \<open>\<^verbatim>\<open>shutil.rmtree\<close> of a directory: the directory and everything below it.\<close>

definition rmtree :: "string \<Rightarrow> filesystem \<Rightarrow> filesystem" where
  "rmtree p fs = filter (\<lambda>(q, n). take (length (parts p)) q \<noteq> parts p) fs"

text \<open>\<^verbatim>\<open>Path.rmdir\<close>: only an empty directory is removed.\<close>

definition rmdir :: "string \<Rightarrow> filesystem \<Rightarrow> error + filesystem" where
  "rmdir p fs =
     (case lookup fs p of
        None \<Rightarrow> Inl FileNotFoundError
      | Some (File c) \<Rightarrow> Inl NotADirectoryError
      | Some Dir \<Rightarrow>
          (if children fs (parts p) \<noteq> [] then Inl OSError
           else Inr (filter (\<lambda>(q, n). q \<noteq> parts p) fs)))"





text \<open>
  \<^verbatim>\<open>pd.read_excel\<close>, \<^verbatim>\<open>pd.read_csv\<close> and \<^verbatim>\<open>pd.read_json\<close> of a path.
\<close>

definition read_table :: "filesystem \<Rightarrow> string \<Rightarrow> error + dataframe" where
  "read_table fs p =
     (case lookup fs p of
        None \<Rightarrow> Inl FileNotFoundError
      | Some Dir \<Rightarrow> Inl OSError
      | Some (File None) \<Rightarrow> Inl (ValueError UnreadableTable)
      | Some (File (Some df)) \<Rightarrow> Inr df)"

text \<open>
  \<^verbatim>\<open>df.to_excel(path, index=False)\<close>. The sheet has the cells of the frame without the
  labels of its rows. What \<^verbatim>\<open>pd.read_excel\<close> reads from it is not the frame that was
  written: the rows are numbered from 0, and pandas types every column anew on every
  read (an empty text is read as \<^verbatim>\<open>NaN\<close>, a column of numeric texts as numbers). The
  frame read back from the sheet of a frame is the parameter \<open>read_back\<close>.
\<close>

definition to_excel :: "(dataframe \<Rightarrow> dataframe) \<Rightarrow> dataframe \<Rightarrow> string \<Rightarrow> filesystem \<Rightarrow> filesystem" where
  "to_excel read_back df p fs = write_node p (File (Some (read_back df))) fs"

section \<open>The dataset\<close>

text \<open>
  An entry of \<^verbatim>\<open>Dataset._dataset\<close> as \<^verbatim>\<open>_load\<close> builds it: for a spreadsheet the
  dictionary \<^verbatim>\<open>{"path": path, "metadata": frame}\<close>, for anything else the path.
\<close>

datatype entry = Tabular string dataframe | Opaque string

text \<open>
  The state that the modelled methods of \<^verbatim>\<open>Dataset\<close> read and write. Of the object:
  \<^verbatim>\<open>_dataset_path\<close> (as the string of the path), \<^verbatim>\<open>_dataset\<close>, the frames
  \<^verbatim>\<open>_metadata[name].data\<close> of the metadata editors, \<^verbatim>\<open>_subjects\<close> (the type \<open>'s\<close> is the
  class \<^verbatim>\<open>Subject\<close>), \<^verbatim>\<open>_subject_id_field\<close> and \<^verbatim>\<open>_sample_id_field\<close>. Of the
  world: the file system, the lines printed, and the calls of \<^verbatim>\<open>Metadata.save\<close> so far,
  each with the editor's name and the frame it saved.

  A method that changes a frame in place changes it where it took it from, the entry or
  the editor; a method that assigns a frame to both is modelled on both.
\<close>

record 's dataset =
  dataset_path :: string
  entries :: "(string \<times> entry) list"
  metadata :: "(string \<times> dataframe) list"
  subjects :: "(string \<times> 's) list"
  subject_id_field :: string
  sample_id_field :: string
  fs :: filesystem
  printed :: "string list"
  saved :: "(string \<times> dataframe) list"

text \<open>\<^verbatim>\<open>self._dataset.get(metadata_file).get("metadata")\<close>\<close>

definition entry_metadata :: "('s, 'x) dataset_scheme \<Rightarrow> string \<Rightarrow> error + dataframe" where
  "entry_metadata ds metadata_file =
     (case map_of (entries ds) metadata_file of
        None \<Rightarrow> Inl AttributeError
      | Some (Opaque p) \<Rightarrow> Inl AttributeError
      | Some (Tabular p md) \<Rightarrow> Inr md)"

text \<open>\<^verbatim>\<open>self._dataset[metadata_file]["metadata"] = frame\<close>\<close>

definition set_entry_metadata ::
  "string \<Rightarrow> dataframe \<Rightarrow> (string \<times> entry) list \<Rightarrow> error + (string \<times> entry) list" where
  "set_entry_metadata metadata_file md es =
     (case map_of es metadata_file of
        None \<Rightarrow> Inl KeyError
      | Some (Opaque p) \<Rightarrow> Inl TypeError
      | Some (Tabular p old) \<Rightarrow> Inr (AList.update metadata_file (Tabular p md) es))"

section \<open>Mutation engine\<close>

text \<open>
  \<^verbatim>\<open>Dataset.set_field\<close>. The assignment \<^verbatim>\<open>metadata.loc[row_index, header] = value\<close> is
  in a \<^verbatim>\<open>try\<close> whose handler turns every \<^verbatim>\<open>ValueError\<close> into the one with the message
  "row does not exists"; any other exception passes.
\<close>

definition set_field ::
  "list_rule \<Rightarrow> ('s, 'x) dataset_scheme \<Rightarrow> string \<Rightarrow> pyval \<Rightarrow> string \<Rightarrow> pyval
     \<Rightarrow> error + ('s, 'x) dataset_scheme" where
  "set_field list_value ds metadata_file row_index header v =
     (if entries ds = [] then Inl (ValueError DatasetNotDefined)
      else case entry_metadata ds metadata_file of
        Inl e \<Rightarrow> Inl e
      | Inr md \<Rightarrow>
         (case row_index of
            PInt k \<Rightarrow>
              (case loc_set list_value (k - 2) header v md of
                 Inl (ValueError m) \<Rightarrow> Inl (ValueError RowDoesNotExist)
               | Inl e \<Rightarrow> Inl e
               | Inr md' \<Rightarrow>
                  (case set_entry_metadata metadata_file md' (entries ds) of
                     Inl e \<Rightarrow> Inl e
                   | Inr es \<Rightarrow> Inr (ds\<lparr>entries := es\<rparr>)))
          | _ \<Rightarrow> Inl (ValueError RowIndexNotInt)))"









text \<open>
  \<^verbatim>\<open>Dataset.update_by_json\<close>, from the dictionary that \<^verbatim>\<open>json.load\<close> returns. The built-in
  \<^verbatim>\<open>str\<close> is the parameter \<open>str_of\<close>. The assignments are outside any \<^verbatim>\<open>try\<close>.

  \<^verbatim>\<open>metadata.index[metadata['Metadata element'] == field].tolist()[0]\<close> raises
  \<^verbatim>\<open>KeyError\<close> without the column and \<^verbatim>\<open>IndexError\<close> without a matching row.
\<close>

definition element_index :: "dataframe \<Rightarrow> string \<Rightarrow> error + int" where
  "element_index md field =
     (if ''Metadata element'' \<notin> set (columns md) then Inl KeyError
      else case matching_labels md ''Metadata element'' (PStr field) of
        [] \<Rightarrow> Inl IndexError
      | l # ls \<Rightarrow> Inr l)"

definition set_value :: "list_rule \<Rightarrow> dataframe \<Rightarrow> string \<Rightarrow> pyval \<Rightarrow> error + dataframe" where
  "set_value list_value md field v =
     (case element_index md field of
        Inl e \<Rightarrow> Inl e
      | Inr i \<Rightarrow> loc_set list_value i ''Value'' v md)"

definition is_list :: "pyval \<Rightarrow> bool" where
  "is_list v = (case v of PList xs \<Rightarrow> True | _ \<Rightarrow> False)"

text \<open>
  The inner loop \<^verbatim>\<open>for key_1, value_1 in value.items()\<close>. Its body tests and assigns the
  variable \<^verbatim>\<open>value\<close> of the outer loop, which the first argument carries from one round to
  the next; the items iterated are those of the dictionary the loop started with.
\<close>

fun update_nested ::
  "list_rule \<Rightarrow> (pyval \<Rightarrow> string) \<Rightarrow> pyval \<Rightarrow> (string \<times> pyval) list \<Rightarrow> dataframe
     \<Rightarrow> error + dataframe" where
  "update_nested list_value str_of val [] md = Inr md"
| "update_nested list_value str_of val ((key_1, value_1) # items) md =
     (let field = ''    '' @ key_1;
          val' = (if is_list val then PStr (str_of value_1) else value_1)
      in case set_value list_value md field val' of
           Inl e \<Rightarrow> Inl e
         | Inr md' \<Rightarrow> update_nested list_value str_of val' items md')"

fun update_items ::
  "list_rule \<Rightarrow> (pyval \<Rightarrow> string) \<Rightarrow> (string \<times> pyval) list \<Rightarrow> dataframe \<Rightarrow> error + dataframe" where
  "update_items list_value str_of [] md = Inr md"
| "update_items list_value str_of ((key, val) # items) md =
     (case
        (case val of
           PDict nested \<Rightarrow> update_nested list_value str_of val nested md
         | PList xs \<Rightarrow> set_value list_value md key (PStr (str_of val))
         | _ \<Rightarrow> set_value list_value md key val)
      of Inl e \<Rightarrow> Inl e
       | Inr md' \<Rightarrow> update_items list_value str_of items md')"

definition update_by_json ::
  "list_rule \<Rightarrow> (pyval \<Rightarrow> string) \<Rightarrow> ('s, 'x) dataset_scheme \<Rightarrow> string \<Rightarrow> (string \<times> pyval) list
     \<Rightarrow> error + dataframe" where
  "update_by_json list_value str_of ds metadata_file data =
     (case entry_metadata ds metadata_file of
        Inl e \<Rightarrow> Inl e
      | Inr md \<Rightarrow> update_items list_value str_of data md)"

section \<open>Subject index\<close>

text \<open>
  \<^verbatim>\<open>Dataset.get_subject\<close>. \<^verbatim>\<open>self._subjects.get(subject_sds_id)\<close> raises nothing: for an
  id that is no key it is \<^verbatim>\<open>None\<close>, which the method returns; the result \<open>None\<close> of the
  model is that \<^verbatim>\<open>None\<close>.
\<close>

definition get_subject :: "('s, 'x) dataset_scheme \<Rightarrow> pyval \<Rightarrow> error + 's option" where
  "get_subject ds subject_sds_id =
     (case subject_sds_id of
        PStr sid \<Rightarrow> Inr (map_of (subjects ds) sid)
      | _ \<Rightarrow> Inl (ValueError SubjectIdNotString))"

section \<open>Metadata editors\<close>

text \<open>
  Modelled from the spec: the class \<^verbatim>\<open>Metadata\<close> of \<^verbatim>\<open>sparc_me/core/metadata.py\<close> is
  not among the sources. The spec (section 6) gives its contract: the table \<^verbatim>\<open>data\<close>,
  \<^verbatim>\<open>removeRow(key)\<close>, \<^verbatim>\<open>setValues(element, values)\<close> and \<^verbatim>\<open>save()\<close>. Section 4.6
  has \<^verbatim>\<open>removeRow\<close> remove the row of a file from the manifest by its path, and the row
  of a subject or sample by the folder name; the column that holds the key is an argument
  here. It has \<^verbatim>\<open>setValues\<close> write the value into the row of the description table
  with that name. \<^verbatim>\<open>save\<close> persists the table: the call is recorded with the frame.
\<close>

definition remove_row :: "string \<Rightarrow> string \<Rightarrow> dataframe \<Rightarrow> dataframe" where
  "remove_row key_column key df =
     \<lparr>columns = columns df,
      rows = filter (\<lambda>(l, r). \<not> cell_eq (cell r key_column) (PStr key)) (rows df)\<rparr>"

definition set_values :: "string \<Rightarrow> pyval \<Rightarrow> dataframe \<Rightarrow> dataframe" where
  "set_values element v df =
     \<lparr>columns = add_column ''Value'' (columns df),
      rows = map (\<lambda>(l, r). if cell_eq (cell r ''Metadata element'') (PStr element)
                            then (l, AList.update ''Value'' v r) else (l, r)) (rows df)\<rparr>"

text \<open>
  A method call on the editor \<^verbatim>\<open>self._metadata[name]\<close>: a \<^verbatim>\<open>KeyError\<close> without the
  editor, otherwise the method acts on the editor's frame.
\<close>

definition edit_metadata ::
  "string \<Rightarrow> (dataframe \<Rightarrow> dataframe) \<Rightarrow> ('s, 'x) dataset_scheme \<Rightarrow> error + ('s, 'x) dataset_scheme" where
  "edit_metadata name f ds =
     (case map_of (metadata ds) name of
        None \<Rightarrow> Inl KeyError
      | Some df \<Rightarrow> Inr (ds\<lparr>metadata := AList.update name (f df) (metadata ds)\<rparr>))"

definition save_metadata :: "string \<Rightarrow> ('s, 'x) dataset_scheme \<Rightarrow> error + ('s, 'x) dataset_scheme" where
  "save_metadata name ds =
     (case map_of (metadata ds) name of
        None \<Rightarrow> Inl KeyError
      | Some df \<Rightarrow> Inr (ds\<lparr>saved := saved ds @ [(name, df)]\<rparr>))"

section \<open>Manifest synchronizer\<close>

text \<open>
  The first part of \<^verbatim>\<open>Dataset._modify_manifest\<close>: the path of the manifest, its extension
  and its frame. The first entry of the folder with \<^verbatim>\<open>manifest\<close> in its name is read by
  its extension; without one the manifest is new, with the four columns.
\<close>

definition find_manifest :: "filesystem \<Rightarrow> string \<Rightarrow> error + (string \<times> string \<times> dataframe)" where
  "find_manifest fsys manifest_folder_path =
     (case listdir fsys manifest_folder_path of
        Inl e \<Rightarrow> Inl e
      | Inr files \<Rightarrow>
         (case filter (py_in ''manifest'') files of
            [] \<Rightarrow>
              Inr (join2 manifest_folder_path ''manifest.xlsx'', ''.xlsx'',
                   \<lparr>columns = [''filename'', ''description'', ''timestamp'', ''file type''], rows = []\<rparr>)
          | f # fs' \<Rightarrow>
              (let manifest_file_path = join2 manifest_folder_path f;
                   extension = py_lower (splitext_ext manifest_file_path)
               in if extension = ''.xlsx'' \<or> extension = ''.csv'' \<or> extension = ''.json''
                  then (case read_table fsys manifest_file_path of
                          Inl e \<Rightarrow> Inl e
                        | Inr df \<Rightarrow> Inr (manifest_file_path, extension, df))
                  else Inl (ValueError UnauthorizedManifestExtension))))"

text \<open>
  The row of a file: \<^verbatim>\<open>timestamp\<close> is the time of the call, formatted, which is the
  argument \<open>now\<close>.
\<close>

definition manifest_filename :: "string \<Rightarrow> string \<Rightarrow> string \<Rightarrow> string" where
  "manifest_filename fname manifest_folder_path destination_path =
     as_posix (drop 1 (py_replace (join2 destination_path fname) manifest_folder_path []))"

definition file_type :: "string \<Rightarrow> string" where
  "file_type fname = drop 1 (py_lower (splitext_ext fname))"

definition manifest_row :: "string \<Rightarrow> string \<Rightarrow> string \<Rightarrow> string \<Rightarrow> string \<Rightarrow> row" where
  "manifest_row now fname manifest_folder_path destination_path description =
     [(''filename'', PStr (manifest_filename fname manifest_folder_path destination_path)),
      (''timestamp'', PStr now),
      (''description'', PStr description),
      (''file type'', PStr (file_type fname))]"

text \<open>
  The update of the frame: \<^verbatim>\<open>df['filename'] == row['filename']\<close> needs the column; when
  the mask has a true entry the timestamp of its rows is set, otherwise the row is
  concatenated.
\<close>

definition same_filename :: "row \<Rightarrow> (int \<times> row) \<Rightarrow> bool" where
  "same_filename r = (\<lambda>(l, r'). cell_eq (cell r' ''filename'') (cell r ''filename''))"

definition upsert_row :: "dataframe \<Rightarrow> row \<Rightarrow> error + dataframe" where
  "upsert_row df r =
     (if ''filename'' \<notin> set (columns df) then Inl KeyError
      else if list_ex (same_filename r) (rows df)
      then Inr (mask_set (same_filename r) ''timestamp'' (cell r ''timestamp'') df)
      else Inr (concat_row df r))"

text \<open>\<^verbatim>\<open>Dataset._update_dataset_by_df\<close>\<close>

definition update_dataset_by_df ::
  "dataframe \<Rightarrow> string \<Rightarrow> ('s, 'x) dataset_scheme \<Rightarrow> error + ('s, 'x) dataset_scheme" where
  "update_dataset_by_df df metadata_file ds =
     (case map_of (metadata ds) metadata_file of
        None \<Rightarrow> Inl KeyError
      | Some old \<Rightarrow>
         (case set_entry_metadata metadata_file df (entries ds) of
            Inl e \<Rightarrow> Inl e
          | Inr es \<Rightarrow> Inr (ds\<lparr>metadata := AList.update metadata_file df (metadata ds), entries := es\<rparr>)))"

text \<open>
  \<^verbatim>\<open>Dataset._modify_manifest\<close>. The table it changes is the one it has just read from the
  manifest file, not the one the dataset holds. Its last part writes a spreadsheet; for a
  \<^verbatim>\<open>.csv\<close> manifest it calls \<^verbatim>\<open>pd.to_csv\<close>, which pandas does not have, and for a
  \<^verbatim>\<open>.json\<close> manifest it reads the file again and writes nothing.
\<close>

definition modify_manifest ::
  "(dataframe \<Rightarrow> dataframe) \<Rightarrow> string \<Rightarrow> string \<Rightarrow> string \<Rightarrow> string \<Rightarrow> string
     \<Rightarrow> ('s, 'x) dataset_scheme \<Rightarrow> error + ('s, 'x) dataset_scheme" where
  "modify_manifest read_back now fname manifest_folder_path destination_path description ds =
     (case find_manifest (fs ds) manifest_folder_path of
        Inl e \<Rightarrow> Inl e
      | Inr (manifest_file_path, extension, df) \<Rightarrow>
         (case upsert_row df (manifest_row now fname manifest_folder_path destination_path description) of
            Inl e \<Rightarrow> Inl e
          | Inr df' \<Rightarrow>
             (case update_dataset_by_df df' ''manifest'' ds of
                Inl e \<Rightarrow> Inl e
              | Inr ds' \<Rightarrow>
                 (if extension = ''.xlsx''
                  then Inr (ds'\<lparr>fs := to_excel read_back df' manifest_file_path (fs ds')\<rparr>)
                  else if extension = ''.csv'' then Inl AttributeError
                  else (case read_table (fs ds') manifest_file_path of
                          Inl e \<Rightarrow> Inl e
                        | Inr again \<Rightarrow> Inr ds')))))"

section \<open>Folder lifecycle manager\<close>


text \<open>\<^verbatim>\<open>Dataset._delete_data\<close>, with the flag it returns.\<close>

definition delete_data_flag :: "string \<Rightarrow> ('s, 'x) dataset_scheme \<Rightarrow> ('s, 'x) dataset_scheme \<times> bool" where
  "delete_data_flag destination_path ds =
     (if path_exists (fs ds) destination_path then
        (if is_file (fs ds) destination_path
         then (ds\<lparr>fs := unlink destination_path (fs ds)\<rparr>, True)
         else (ds\<lparr>fs := rmtree destination_path (fs ds)\<rparr>, False))
      else (ds, False))"






text \<open>
  \<^verbatim>\<open>Dataset.delete_data\<close>. The key of the manifest row is the path with every occurrence
  of the dataset path deleted and without its first character.
\<close>

definition manifest_key :: "string \<Rightarrow> string \<Rightarrow> string" where
  "manifest_key dataset_path' destination_path =
     as_posix (drop 1 (py_replace (as_posix destination_path) (as_posix dataset_path') []))"

definition delete_data :: "string \<Rightarrow> ('s, 'x) dataset_scheme \<Rightarrow> error + ('s, 'x) dataset_scheme" where
  "delete_data destination_path ds =
     (if \<not> path_exists (fs ds) destination_path then Inl FileNotFoundError
      else case delete_data_flag destination_path ds of
        (ds1, delete_flag) \<Rightarrow>
          (if delete_flag then
             (case edit_metadata ''manifest''
                     (remove_row ''filename'' (manifest_key (dataset_path ds1) destination_path)) ds1 of
                Inl e \<Rightarrow> Inl e
              | Inr ds2 \<Rightarrow> save_metadata ''manifest'' ds2)
           else Inr ds1))"

text \<open>
  Modelled from the spec: \<^verbatim>\<open>get_sub_folder_paths_in_folder\<close> of
  \<^verbatim>\<open>sparc_me/core/utils.py\<close> is not among the sources. The spec (section 4.6) counts with
  it the immediate subdirectories of a folder.
\<close>

definition get_sub_folder_paths_in_folder :: "filesystem \<Rightarrow> string \<Rightarrow> string list" where
  "get_sub_folder_paths_in_folder fsys folder =
     (case iterdir fsys folder of
        Inl e \<Rightarrow> []
      | Inr items \<Rightarrow> filter (is_dir fsys) items)"

text \<open>\<^verbatim>\<open>Dataset._update_sub_sam_nums_in_dataset_description\<close>\<close>

definition sample_folders_of :: "filesystem \<Rightarrow> string list \<Rightarrow> string list" where
  "sample_folders_of fsys subject_folders =
     concat (map (\<lambda>sub. if is_dir fsys sub then get_sub_folder_paths_in_folder fsys sub else [])
               subject_folders)"

definition update_sub_sam_nums_in_dataset_description ::
  "string \<Rightarrow> ('s, 'x) dataset_scheme \<Rightarrow> error + ('s, 'x) dataset_scheme" where
  "update_sub_sam_nums_in_dataset_description primary_folder ds =
     (let subject_folders = get_sub_folder_paths_in_folder (fs ds) primary_folder;
          sample_folders = sample_folders_of (fs ds) subject_folders
      in case edit_metadata ''dataset_description''
                (set_values ''Number of subjects'' (PInt (int (length subject_folders)))) ds of
           Inl e \<Rightarrow> Inl e
         | Inr ds1 \<Rightarrow>
            (case edit_metadata ''dataset_description''
                    (set_values ''Number of samples'' (PInt (int (length sample_folders)))) ds1 of
               Inl e \<Rightarrow> Inl e
             | Inr ds2 \<Rightarrow> save_metadata ''dataset_description'' ds2))"

text \<open>
  \<^verbatim>\<open>Dataset.delete_sample\<close>, for a path (a list is refused before). The items of the folder
  are listed once, then deleted in turn.
\<close>

fun delete_items :: "string list \<Rightarrow> ('s, 'x) dataset_scheme \<Rightarrow> error + ('s, 'x) dataset_scheme" where
  "delete_items [] ds = Inr ds"
| "delete_items (item # items) ds =
     (case delete_data item ds of
        Inl e \<Rightarrow> Inl e
      | Inr ds1 \<Rightarrow> delete_items items ds1)"

definition rmdir_folder :: "string \<Rightarrow> ('s, 'x) dataset_scheme \<Rightarrow> error + ('s, 'x) dataset_scheme" where
  "rmdir_folder folder ds =
     (case rmdir folder (fs ds) of
        Inl e \<Rightarrow> Inl e
      | Inr fsys \<Rightarrow> Inr (ds\<lparr>fs := fsys\<rparr>))"

definition delete_sample :: "string \<Rightarrow> string \<Rightarrow> ('s, 'x) dataset_scheme \<Rightarrow> error + ('s, 'x) dataset_scheme" where
  "delete_sample destination_path data_type ds =
     (let sam_folder = as_posix destination_path
      in if \<not> path_exists (fs ds) sam_folder then Inl FileExistsError
         else if \<not> is_dir (fs ds) sam_folder then Inl (ValueError NotAFolder)
         else
           (let primary_folder = joinpath (dataset_path ds) ''primary''
            in case iterdir (fs ds) sam_folder of
                 Inl e \<Rightarrow> Inl e
               | Inr items \<Rightarrow>
                  (case delete_items items ds of
                     Inl e \<Rightarrow> Inl e
                   | Inr ds1 \<Rightarrow>
                      (case rmdir_folder sam_folder ds1 of
                         Inl e \<Rightarrow> Inl e
                       | Inr ds2 \<Rightarrow>
                          (if data_type = ''primary'' then
                             (case update_sub_sam_nums_in_dataset_description primary_folder ds2 of
                                Inl e \<Rightarrow> Inl e
                              | Inr ds3 \<Rightarrow>
                                 (case edit_metadata ''samples''
                                         (remove_row (sample_id_field ds3) (path_name sam_folder)) ds3 of
                                    Inl e \<Rightarrow> Inl e
                                  | Inr ds4 \<Rightarrow> save_metadata ''samples'' ds4))
                           else Inr ds2)))))"

text \<open>
  \<^verbatim>\<open>Dataset.delete_subject\<close>, for a path. The items of the subject folder are listed once;
  each that is a directory when its turn comes is deleted as a sample.
\<close>

fun delete_sample_folders ::
  "string \<Rightarrow> string list \<Rightarrow> ('s, 'x) dataset_scheme \<Rightarrow> error + ('s, 'x) dataset_scheme" where
  "delete_sample_folders data_type [] ds = Inr ds"
| "delete_sample_folders data_type (sam_folder # items) ds =
     (if is_dir (fs ds) sam_folder then
        (case delete_sample sam_folder data_type ds of
           Inl e \<Rightarrow> Inl e
         | Inr ds1 \<Rightarrow> delete_sample_folders data_type items ds1)
      else delete_sample_folders data_type items ds)"

definition delete_subject :: "string \<Rightarrow> string \<Rightarrow> ('s, 'x) dataset_scheme \<Rightarrow> error + ('s, 'x) dataset_scheme" where
  "delete_subject destination_path data_type ds =
     (let sub_folder = as_posix destination_path
      in if \<not> path_exists (fs ds) sub_folder then Inl (ValueError FolderNotExisting)
         else if \<not> is_dir (fs ds) sub_folder then Inl (ValueError NotAFolder)
         else
           (let primary_folder = joinpath (dataset_path ds) ''primary''
            in case iterdir (fs ds) sub_folder of
                 Inl e \<Rightarrow> Inl e
               | Inr items \<Rightarrow>
                  (case delete_sample_folders data_type items ds of
                     Inl e \<Rightarrow> Inl e
                   | Inr ds1 \<Rightarrow>
                      (case rmdir_folder sub_folder ds1 of
                         Inl e \<Rightarrow> Inl e
                       | Inr ds2 \<Rightarrow>
                          (if data_type = ''primary'' then
                             (case update_sub_sam_nums_in_dataset_description primary_folder ds2 of
                                Inl e \<Rightarrow> Inl e
                              | Inr ds3 \<Rightarrow>
                                 (case edit_metadata ''subjects''
                                         (remove_row (subject_id_field ds3) (path_name sub_folder)) ds3 of
                                    Inl e \<Rightarrow> Inl e
                                  | Inr ds4 \<Rightarrow> save_metadata ''subjects'' ds4))
                           else Inr ds2)))))"

section \<open>Sequences of manifest calls\<close>

text \<open>
  A sequence of calls of \<^verbatim>\<open>_modify_manifest\<close> for one manifest folder, each with its time,
  file name, destination and description; the first failure ends it.
\<close>

fun modify_manifest_calls ::
  "(dataframe \<Rightarrow> dataframe) \<Rightarrow> string \<Rightarrow> (string \<times> string \<times> string \<times> string) list
     \<Rightarrow> ('s, 'x) dataset_scheme \<Rightarrow> error + ('s, 'x) dataset_scheme" where
  "modify_manifest_calls read_back folder [] ds = Inr ds"
| "modify_manifest_calls read_back folder ((now, fname, dest, descr) # calls) ds =
     (case modify_manifest read_back now fname folder dest descr ds of
        Inl e \<Rightarrow> Inl e
      | Inr ds' \<Rightarrow> modify_manifest_calls read_back folder calls ds')"

section \<open>What a call leaves alone\<close>

text \<open>
  Between two states: the editors other than the manifest's hold the same frames, the
  entries are the same, no editor but the manifest's was saved, nothing was printed and
  the dataset path is the same.
\<close>

definition unchanged_but_manifest :: "('s, 'x) dataset_scheme \<Rightarrow> ('s, 'x) dataset_scheme \<Rightarrow> bool" where
  "unchanged_but_manifest ds ds' =
     ((\<forall>name. name \<noteq> ''manifest'' \<longrightarrow> map_of (metadata ds') name = map_of (metadata ds) name)
      \<and> entries ds' = entries ds
      \<and> filter (\<lambda>(name, df). name \<noteq> ''manifest'') (saved ds')
          = filter (\<lambda>(name, df). name \<noteq> ''manifest'') (saved ds)
      \<and> printed ds' = printed ds
      \<and> dataset_path ds' = dataset_path ds)"

section \<open>Example datasets\<close>







definition subjects_example :: dataframe where
  "subjects_example = \<lparr>columns = [''subject id''], rows = []\<rparr>"

definition subjects_appended :: dataframe where
  "subjects_appended =
     \<lparr>columns = [''subject id'', ''age''],
      rows = [(0, [(''subject id'', PStr ''sub-1''), (''age'', PStr ''30'')])]\<rparr>"

definition subjects_merged :: dataframe where
  "subjects_merged =
     \<lparr>columns = [''subject id'', ''age'', ''sex''],
      rows = [(0, [(''subject id'', PStr ''sub-1''), (''age'', PStr ''30''), (''sex'', PStr ''F'')])]\<rparr>"

text \<open>
  A dataset of version 2.0.0 at the given path whose entries and editors hold the given
  tables, on the given file system.
\<close>

definition example_dataset ::
  "string \<Rightarrow> (string \<times> dataframe) list \<Rightarrow> filesystem \<Rightarrow> unit dataset" where
  "example_dataset path tables fsys =
     \<lparr>dataset_path = path,
      entries = map (\<lambda>(name, df). (name, Tabular (path @ ''/'' @ name @ ''.xlsx'') df)) tables,
      metadata = tables,
      subjects = [],
      subject_id_field = ''subject id'',
      sample_id_field = ''sample id'',
      fs = fsys,
      printed = [],
      saved = []\<rparr>"

definition description_example :: dataframe where
  "description_example =
     \<lparr>columns = [''Metadata element'', ''Value''],
      rows = [(0, [(''Metadata element'', PStr ''Keywords'')]),
              (1, [(''Metadata element'', PStr ''Contributor information'')]),
              (2, [(''Metadata element'', PStr ''    Contributor role'')])]\<rparr>"

text \<open>
  A dataset with the primary tree \<^verbatim>\<open>{sub-1: [sam-1, sam-2], sub-2: [sam-1]}\<close> and one
  derivative file, recorded in the manifest.
\<close>

definition tree_example :: filesystem where
  "tree_example =
     [([''sds''], Dir),
      ([''sds'', ''primary''], Dir),
      ([''sds'', ''primary'', ''sub-1''], Dir),
      ([''sds'', ''primary'', ''sub-1'', ''sam-1''], Dir),
      ([''sds'', ''primary'', ''sub-1'', ''sam-2''], Dir),
      ([''sds'', ''primary'', ''sub-2''], Dir),
      ([''sds'', ''primary'', ''sub-2'', ''sam-1''], Dir),
      ([''sds'', ''derivative''], Dir),
      ([''sds'', ''derivative'', ''sub-1''], Dir),
      ([''sds'', ''derivative'', ''sub-1'', ''sam-1''], Dir),
      ([''sds'', ''derivative'', ''sub-1'', ''sam-1'', ''mask.tif''], File None)]"

definition counts_example :: dataframe where
  "counts_example =
     \<lparr>columns = [''Metadata element'', ''Value''],
      rows = [(0, [(''Metadata element'', PStr ''Number of subjects'')]),
              (1, [(''Metadata element'', PStr ''Number of samples''), (''Value'', PInt 7)])]\<rparr>"

definition manifest_example :: dataframe where
  "manifest_example =
     \<lparr>columns = [''filename'', ''description'', ''timestamp'', ''file type''],
      rows = [(0, [(''filename'', PStr ''derivative/sub-1/sam-1/mask.tif''),
                   (''description'', PStr ''File of subject sub-1 sample sam-1''),
                   (''timestamp'', PStr ''2023-05-01 10:00:00''),
                   (''file type'', PStr ''tif'')])]\<rparr>"

definition tree_dataset :: "unit dataset" where
  "tree_dataset =
     example_dataset ''/sds''
       [(''dataset_description'', counts_example), (''manifest'', manifest_example),
        (''subjects'', subjects_appended), (''samples'', subjects_example)]
       tree_example"

text \<open>
  A dataset at \<^verbatim>\<open>/data\<close> with the file \<^verbatim>\<open>primary/sub-1/sam-1/data.txt\<close>, recorded in the
  manifest under its path relative to the dataset.
\<close>

definition data_manifest :: dataframe where
  "data_manifest =
     \<lparr>columns = [''filename'', ''description'', ''timestamp'', ''file type''],
      rows = [(0, [(''filename'', PStr ''primary/sub-1/sam-1/data.txt''),
                   (''description'', PStr ''File of subject sub-1 sample sam-1''),
                   (''timestamp'', PStr ''2023-05-01 10:00:00''),
                   (''file type'', PStr ''txt'')])]\<rparr>"

definition data_dataset :: "unit dataset" where
  "data_dataset =
     example_dataset ''/data'' [(''manifest'', data_manifest)]
       [([''data''], Dir),
        ([''data'', ''manifest.xlsx''], File (Some data_manifest)),
        ([''data'', ''primary''], Dir),
        ([''data'', ''primary'', ''sub-1''], Dir),
        ([''data'', ''primary'', ''sub-1'', ''sam-1''], Dir),
        ([''data'', ''primary'', ''sub-1'', ''sam-1'', ''data.txt''], File None)]"







text \<open>
  A dataset whose manifest is the file \<^verbatim>\<open>manifest.json\<close>, with the row of one file, and the
  same dataset with the manifest in \<^verbatim>\<open>manifest.csv\<close>. The sample folder holds two files.
\<close>

definition notes_manifest :: dataframe where
  "notes_manifest =
     \<lparr>columns = [''filename'', ''description'', ''timestamp'', ''file type''],
      rows = [(0, [(''filename'', PStr ''primary/sub-1/sam-1/notes.txt''),
                   (''description'', PStr ''File of subject sub-1 sample sam-1''),
                   (''timestamp'', PStr ''2023-04-30 09:00:00''),
                   (''file type'', PStr ''txt'')])]\<rparr>"

definition manifest_dataset :: "string \<Rightarrow> unit dataset" where
  "manifest_dataset name =
     \<lparr>dataset_path = ''/sds'',
      entries = [(''manifest'', Tabular (''/sds/'' @ name) notes_manifest)],
      metadata = [(''manifest'', notes_manifest)],
      subjects = [],
      subject_id_field = ''subject id'',
      sample_id_field = ''sample id'',
      fs = [([''sds''], Dir),
            ([''sds'', name], File (Some notes_manifest)),
            ([''sds'', ''primary''], Dir),
            ([''sds'', ''primary'', ''sub-1''], Dir),
            ([''sds'', ''primary'', ''sub-1'', ''sam-1''], Dir),
            ([''sds'', ''primary'', ''sub-1'', ''sam-1'', ''notes.txt''], File None),
            ([''sds'', ''primary'', ''sub-1'', ''sam-1'', ''scan.TIF''], File None)],
      printed = [],
      saved = []\<rparr>"

definition scan_row :: "string \<Rightarrow> string \<Rightarrow> row" where
  "scan_row now description =
     [(''filename'', PStr ''primary/sub-1/sam-1/scan.TIF''),
      (''timestamp'', PStr now),
      (''description'', PStr description),
      (''file type'', PStr ''tif'')]"

definition manifest_with :: "row \<Rightarrow> dataframe" where
  "manifest_with r =
     \<lparr>columns = [''filename'', ''description'', ''timestamp'', ''file type''],
      rows = [(0, snd (hd (rows notes_manifest))), (1, r)]\<rparr>"

section \<open>Properties of the string operations\<close>

lemma py_in_single: "py_in [c] s = (c \<in> set s)"
  by (induction s) auto

lemma replace_from_single: "replace_from 0 [a] [b] s = map (\<lambda>c. if c = a then b else c) s"
  by (induction s) auto

lemma py_replace_single: "py_replace s [a] [b] = map (\<lambda>c. if c = a then b else c) s"
  by (simp add: py_replace_def replace_from_single)

section \<open>Properties of the data frame operations\<close>

lemma cell_update: "cell (AList.update k v r) c = (if c = k then v else cell r c)"
  by (simp add: cell_def update_conv')

lemma cell_eq_PStr: "cell_eq c (PStr x) \<longleftrightarrow> c = PStr x"
  by (auto simp: cell_eq_def isna_def)

lemma fold_update_map_of:
  "map_of (fold (\<lambda>(k, v). AList.update k v) r ro) = map_of ro ++ map_of (rev r)"
proof (induction r arbitrary: ro)
  case Nil
  then show ?case by simp
next
  case (Cons kv r)
  obtain k v where kv: "kv = (k, v)" by (cases kv)
  show ?case
    by (simp add: kv Cons.IH update_conv' map_add_Some_iff fun_eq_iff map_add_def split: option.splits)
qed

lemma fold_update_cell:
  assumes "distinct (map fst r)"
  shows "cell (fold (\<lambda>(k, v). AList.update k v) r ro) c =
     (case map_of r c of Some v \<Rightarrow> v | None \<Rightarrow> cell ro c)"
proof -
  have "distinct (map fst (rev r))"
    using assms by (simp add: rev_map [symmetric])
  then have "map_of (rev r) = map_of r"
    using assms by (simp add: map_of_inject_set)
  then show ?thesis
    by (simp add: cell_def fold_update_map_of map_add_def split: option.splits)
qed

lemma matching_labels_mem: "matching_labels df c v = [l] \<Longrightarrow> l \<in> set (map fst (rows df))"
proof -
  assume a: "matching_labels df c v = [l]"
  have "set (matching_labels df c v) \<subseteq> set (map fst (rows df))"
    by (auto simp: matching_labels_def)
  with a show ?thesis by simp
qed

lemma matching_row_label:
  assumes m: "matching_labels df c v = [l]" and d: "distinct (map fst (rows df))"
    and i: "i < length (rows df)"
  shows "cell_eq (cell (snd (rows df ! i)) c) v \<longleftrightarrow> fst (rows df ! i) = l"
proof
  assume "cell_eq (cell (snd (rows df ! i)) c) v"
  then have "fst (rows df ! i) \<in> set (matching_labels df c v)"
    using i by (force simp: matching_labels_def case_prod_unfold)
  then show "fst (rows df ! i) = l" by (simp add: m)
next
  assume li: "fst (rows df ! i) = l"
  have "l \<in> set (matching_labels df c v)" by (simp add: m)
  then obtain lr where lr: "lr \<in> set (rows df)" "fst lr = l" "cell_eq (cell (snd lr) c) v"
    by (auto simp: matching_labels_def)
  then obtain j where j: "j < length (rows df)" "rows df ! j = lr"
    by (auto simp: in_set_conv_nth)
  have "map fst (rows df) ! i = map fst (rows df) ! j"
    using i j li lr by simp
  moreover have "i < length (map fst (rows df))" "j < length (map fst (rows df))"
    using i j by simp_all
  ultimately have "i = j"
    using d nth_eq_iff_index_eq by blast
  then show "cell_eq (cell (snd (rows df ! i)) c) v"
    using j lr by simp
qed

lemma map_snd_renumber: "map snd (renumber rs) = rs"
  by (simp add: renumber_def)

lemma map_fst_renumber: "map fst (renumber rs) = map int [0 ..< length rs]"
  by (simp add: renumber_def)

lemma fold_add_column_set: "set (fold add_column ks cols) = set cols \<union> set ks"
  by (induction ks arbitrary: cols) (auto simp: add_column_def)

lemma fold_add_column_prefix: "take (length cols) (fold add_column ks cols) = cols"
proof (induction ks arbitrary: cols)
  case Nil
  then show ?case by simp
next
  case (Cons k ks)
  have "take (length cols) (fold add_column ks (add_column k cols)) =
        take (length cols) (take (length (add_column k cols)) (fold add_column ks (add_column k cols)))"
    by (simp add: add_column_def min_def)
  also have "\<dots> = take (length cols) (add_column k cols)"
    by (simp only: Cons.IH)
  also have "\<dots> = cols"
    by (simp add: add_column_def)
  finally show ?case by simp
qed

section \<open>Properties of the deleting operations\<close>

lemma unchanged_refl: "unchanged_but_manifest ds ds"
  by (simp add: unchanged_but_manifest_def)

lemma unchanged_trans:
  "unchanged_but_manifest a b \<Longrightarrow> unchanged_but_manifest b c \<Longrightarrow> unchanged_but_manifest a c"
  by (simp add: unchanged_but_manifest_def)

lemma delete_data_flag_frame:
  "delete_data_flag p ds = (ds1, flag) \<Longrightarrow> unchanged_but_manifest ds ds1"
  by (auto simp: delete_data_flag_def unchanged_but_manifest_def split: if_splits)

lemma edit_manifest_frame:
  "edit_metadata ''manifest'' f ds = Inr ds' \<Longrightarrow> unchanged_but_manifest ds ds'"
  by (auto simp: edit_metadata_def unchanged_but_manifest_def update_conv' split: option.splits)

lemma save_manifest_frame:
  "save_metadata ''manifest'' ds = Inr ds' \<Longrightarrow> unchanged_but_manifest ds ds'"
  by (auto simp: save_metadata_def unchanged_but_manifest_def split: option.splits)

lemma delete_data_frame:
  assumes "delete_data p ds = Inr ds'"
  shows "unchanged_but_manifest ds ds'"
proof -
  obtain ds1 flag where f: "delete_data_flag p ds = (ds1, flag)"
    by (cases "delete_data_flag p ds")
  have u1: "unchanged_but_manifest ds ds1"
    using f by (rule delete_data_flag_frame)
  show ?thesis
  proof (cases flag)
    case False
    then have "ds' = ds1"
      using assms f by (simp add: delete_data_def split: if_splits)
    then show ?thesis using u1 by simp
  next
    case True
    then obtain ds2 where e: "edit_metadata ''manifest''
        (remove_row ''filename'' (manifest_key (dataset_path ds1) p)) ds1 = Inr ds2"
      and s: "save_metadata ''manifest'' ds2 = Inr ds'"
      using assms f by (auto simp: delete_data_def split: if_splits sum.splits)
    from u1 edit_manifest_frame [OF e] save_manifest_frame [OF s]
    show ?thesis by (blast intro: unchanged_trans)
  qed
qed

lemma delete_items_frame:
  "delete_items items ds = Inr ds' \<Longrightarrow> unchanged_but_manifest ds ds'"
proof (induction items arbitrary: ds)
  case Nil
  then show ?case by (simp add: unchanged_refl)
next
  case (Cons item items)
  then obtain ds1 where d: "delete_data item ds = Inr ds1" and r: "delete_items items ds1 = Inr ds'"
    by (auto split: sum.splits)
  from delete_data_frame [OF d] Cons.IH [OF r] show ?case
    by (rule unchanged_trans)
qed

lemma rmdir_folder_frame:
  "rmdir_folder p ds = Inr ds' \<Longrightarrow> unchanged_but_manifest ds ds'"
  by (auto simp: rmdir_folder_def unchanged_but_manifest_def split: sum.splits)

lemma delete_sample_frame:
  assumes "data_type \<noteq> ''primary''" and "delete_sample p data_type ds = Inr ds'"
  shows "unchanged_but_manifest ds ds'"
proof -
  from assms obtain items ds1 where
    d: "delete_items items ds = Inr ds1" and r: "rmdir_folder (as_posix p) ds1 = Inr ds'"
    by (auto simp: delete_sample_def Let_def split: if_splits sum.splits)
  from delete_items_frame [OF d] rmdir_folder_frame [OF r] show ?thesis
    by (rule unchanged_trans)
qed

lemma delete_sample_folders_frame:
  assumes "data_type \<noteq> ''primary''"
  shows "delete_sample_folders data_type items ds = Inr ds' \<Longrightarrow> unchanged_but_manifest ds ds'"
proof (induction items arbitrary: ds)
  case Nil
  then show ?case by (simp add: unchanged_refl)
next
  case (Cons item items)
  show ?case
  proof (cases "is_dir (fs ds) item")
    case True
    with Cons.prems obtain ds1 where d: "delete_sample item data_type ds = Inr ds1"
      and r: "delete_sample_folders data_type items ds1 = Inr ds'"
      by (auto split: sum.splits)
    from delete_sample_frame [OF assms d] Cons.IH [OF r] show ?thesis
      by (rule unchanged_trans)
  next
    case False
    with Cons.prems have "delete_sample_folders data_type items ds = Inr ds'" by simp
    then show ?thesis by (rule Cons.IH)
  qed
qed

lemma delete_subject_frame:
  assumes "data_type \<noteq> ''primary''" and "delete_subject p data_type ds = Inr ds'"
  shows "unchanged_but_manifest ds ds'"
proof -
  from assms obtain items ds1 where
    d: "delete_sample_folders data_type items ds = Inr ds1" and r: "rmdir_folder (as_posix p) ds1 = Inr ds'"
    by (auto simp: delete_subject_def Let_def split: if_splits sum.splits)
  from delete_sample_folders_frame [OF assms(1) d] rmdir_folder_frame [OF r] show ?thesis
    by (rule unchanged_trans)
qed

lemma delete_data_cases:
  "(\<not> path_exists (fs ds) p \<longrightarrow> delete_data p ds = Inl FileNotFoundError)
   \<and> (is_file (fs ds) p \<and> map_of (metadata ds) ''manifest'' = Some m \<longrightarrow>
        delete_data p ds =
          Inr (ds\<lparr>fs := unlink p (fs ds),
                  metadata := AList.update ''manifest''
                    (remove_row ''filename'' (manifest_key (dataset_path ds) p) m) (metadata ds),
                  saved := saved ds @
                    [(''manifest'', remove_row ''filename'' (manifest_key (dataset_path ds) p) m)]\<rparr>))
   \<and> (is_dir (fs ds) p \<longrightarrow> delete_data p ds = Inr (ds\<lparr>fs := rmtree p (fs ds)\<rparr>))"
  by (auto simp: delete_data_def delete_data_flag_def path_exists_def is_file_def is_dir_def
      edit_metadata_def save_metadata_def update_conv' split: option.splits node.splits)

section \<open>Properties of the count recomputation\<close>

lemma subfolders_are_dirs:
  "sub \<in> set (get_sub_folder_paths_in_folder fsys folder) \<Longrightarrow> is_dir fsys sub"
  by (auto simp: get_sub_folder_paths_in_folder_def split: sum.splits)

lemma length_sample_folders_of:
  "length (sample_folders_of fsys (get_sub_folder_paths_in_folder fsys folder)) =
     sum_list (map (\<lambda>sub. length (get_sub_folder_paths_in_folder fsys sub))
                 (get_sub_folder_paths_in_folder fsys folder))"
proof -
  have "map (\<lambda>sub. if is_dir fsys sub then get_sub_folder_paths_in_folder fsys sub else [])
          (get_sub_folder_paths_in_folder fsys folder)
        = map (get_sub_folder_paths_in_folder fsys) (get_sub_folder_paths_in_folder fsys folder)"
    by (rule map_cong) (simp_all add: subfolders_are_dirs)
  then have "sample_folders_of fsys (get_sub_folder_paths_in_folder fsys folder)
        = concat (map (get_sub_folder_paths_in_folder fsys) (get_sub_folder_paths_in_folder fsys folder))"
    by (simp only: sample_folders_of_def)
  then show ?thesis
    by (simp only: length_concat map_map comp_def)
qed

lemma set_values_twice:
  assumes "a \<noteq> b"
  shows "rows (set_values b w (set_values a v df)) =
     map (\<lambda>(l, r). if cell r ''Metadata element'' = PStr a then (l, AList.update ''Value'' v r)
                    else if cell r ''Metadata element'' = PStr b then (l, AList.update ''Value'' w r)
                    else (l, r)) (rows df)"
  using assms
  by (auto simp: set_values_def cell_eq_PStr cell_update case_prod_unfold)

section \<open>Properties of the manifest synchronizer\<close>

lemma upsert_row_existing:
  assumes "upsert_row df r = Inr df'" and "list_ex (same_filename r) (rows df)"
  shows "map fst (rows df') = map fst (rows df)
     \<and> (\<forall>i < length (rows df).
          if same_filename r (rows df ! i)
          then fst (rows df' ! i) = fst (rows df ! i)
               \<and> (\<forall>c. cell (snd (rows df' ! i)) c =
                     (if c = ''timestamp'' then cell r ''timestamp'' else cell (snd (rows df ! i)) c))
          else rows df' ! i = rows df ! i)"
proof -
  from assms have "df' = mask_set (same_filename r) ''timestamp'' (cell r ''timestamp'') df"
    by (simp add: upsert_row_def split: if_splits)
  then show ?thesis
    by (auto simp: mask_set_def case_prod_unfold cell_update comp_def)
qed

lemma upsert_row_new:
  assumes "upsert_row df r = Inr df'" and "\<not> list_ex (same_filename r) (rows df)"
  shows "map snd (rows df') = map snd (rows df) @ [r]"
proof -
  from assms have "df' = concat_row df r"
    by (simp add: upsert_row_def split: if_splits)
  then show ?thesis
    by (simp add: concat_row_def map_snd_renumber)
qed

lemma modify_manifest_steps:
  assumes "modify_manifest read_back now fname folder dest descr ds = Inr ds'"
  shows "\<exists>p e df df'. find_manifest (fs ds) folder = Inr (p, e, df)
           \<and> upsert_row df (manifest_row now fname folder dest descr) = Inr df'
           \<and> map_of (metadata ds') ''manifest'' = Some df'
           \<and> (fs ds' = to_excel read_back df' p (fs ds) \<or> fs ds' = fs ds)"
  using assms
  by (auto simp: modify_manifest_def update_dataset_by_df_def update_conv'
      split: sum.splits prod.splits if_splits option.splits)

section \<open>Properties of the loop over a source folder\<close>





section \<open>The key of a manifest row\<close>

lemma replace_from_skip:
  "length xs = k \<Longrightarrow> replace_from k old new (xs @ s) = replace_from 0 old new s"
  by (induction xs arbitrary: k) auto

lemma startswith_append: "startswith (old @ s) old"
  by (induction old) auto

lemma replace_from_prefix:
  assumes "old \<noteq> []"
  shows "replace_from 0 old new (old @ s) = new @ replace_from 0 old new s"
proof -
  obtain c cs where o: "old = c # cs" using assms by (cases old) auto
  have "replace_from 0 old new (old @ s) = new @ replace_from (length old - 1) old new (cs @ s)"
    using startswith_append [of old s] by (simp add: o)
  also have "replace_from (length old - 1) old new (cs @ s) = replace_from 0 old new s"
    by (rule replace_from_skip) (simp add: o)
  finally show ?thesis .
qed

lemma replace_from_absent:
  "old \<noteq> [] \<Longrightarrow> \<not> py_in old s \<Longrightarrow> replace_from 0 old new s = s"
  by (induction s) auto

lemma manifest_key_relative:
  assumes "root \<noteq> []" and "as_posix root = root" and "as_posix rel = rel"
    and "as_posix (root @ ''/'' @ rel) = root @ ''/'' @ rel"
    and "\<not> py_in root (''/'' @ rel)"
  shows "manifest_key root (root @ ''/'' @ rel) = rel"
proof -
  have "py_replace (root @ ''/'' @ rel) root [] = ''/'' @ rel"
    using assms(1,5) by (simp add: py_replace_def replace_from_prefix replace_from_absent)
  then show ?thesis
    using assms(2,3,4) by (simp add: manifest_key_def)
qed

section \<open>Version normalization\<close>

text \<open>
  C6. \<^verbatim>\<open>_convert_version_format\<close> replaces every \<^verbatim>\<open>.\<close> of its argument with \<^verbatim>\<open>_\<close>
  (no dot is left, the other characters stay in place) and appends \<^verbatim>\<open>_0_0\<close> exactly when
  the result has no \<^verbatim>\<open>_\<close>; so \<^verbatim>\<open>2.0.0\<close> and \<^verbatim>\<open>2_0_0\<close> both give \<^verbatim>\<open>2_0_0\<close>, and
  \<^verbatim>\<open>2\<close> gives \<^verbatim>\<open>2_0_0\<close>. The function reads nothing but its argument.
\<close>

theorem convert_version_format_spec:
  "convert_version_format v =
     (let r = map (\<lambda>c. if c = CHR ''.'' then CHR ''_'' else c) v
      in if CHR ''_'' \<in> set r then r else r @ ''_0_0'')
   \<and> CHR ''.'' \<notin> set (convert_version_format v)
   \<and> convert_version_format ''2.0.0'' = ''2_0_0''
   \<and> convert_version_format ''2_0_0'' = ''2_0_0''
   \<and> convert_version_format ''2'' = ''2_0_0''"
proof -
  have r: "py_replace v ''.'' ''_'' = map (\<lambda>c. if c = CHR ''.'' then CHR ''_'' else c) v" for v
    by (rule py_replace_single)
  have shape: "convert_version_format v =
     (let r = map (\<lambda>c. if c = CHR ''.'' then CHR ''_'' else c) v
      in if CHR ''_'' \<in> set r then r else r @ ''_0_0'')" for v
    unfolding convert_version_format_def r py_in_single by (simp add: Let_def)
  have nodot: "CHR ''.'' \<notin> set (convert_version_format v)"
    unfolding shape by (auto simp: Let_def)
  have e1: "convert_version_format ''2.0.0'' = ''2_0_0''"
    unfolding shape by simp
  have e2: "convert_version_format ''2_0_0'' = ''2_0_0''"
    unfolding shape by simp
  have e3: "convert_version_format ''2'' = ''2_0_0''"
    unfolding shape by simp
  from shape nodot e1 e2 e3 show ?thesis by blast
qed

theorem convert_version_format_spec_witness:
  "convert_version_format ''1.2.3'' = ''1_2_3'' \<and> CHR ''.'' \<notin> set (convert_version_format ''1.2.3'')"
  using convert_version_format_spec [of "''1.2.3''"] by simp

section \<open>Appending a row\<close>


section \<open>Setting a field by its row index\<close>

text \<open>
  C3. In the subjects table with one row, \<^verbatim>\<open>set_field\<close> with \<^verbatim>\<open>row_index = 2\<close> sets the
  cell of that row. With \<^verbatim>\<open>row_index = 1\<close> the label is \<^verbatim>\<open>-1\<close>, which the index does
  not have: the call raises nothing, and the table has a second row, with the label
  \<^verbatim>\<open>-1\<close> and the value.
\<close>

theorem set_field_row_index_one_adds_row:
  "set_field list_value (example_dataset ''/sds'' [(''subjects'', subjects_appended)] [])
       ''subjects'' (PInt 2) ''age'' (PStr ''31'')
     = Inr (example_dataset ''/sds'' [(''subjects'', subjects_appended)] []
             \<lparr>entries := [(''subjects'', Tabular ''/sds/subjects.xlsx''
                  \<lparr>columns = [''subject id'', ''age''],
                   rows = [(0, [(''subject id'', PStr ''sub-1''), (''age'', PStr ''31'')])]\<rparr>)]\<rparr>)
   \<and> set_field list_value (example_dataset ''/sds'' [(''subjects'', subjects_appended)] [])
       ''subjects'' (PInt 1) ''age'' (PStr ''31'')
     = Inr (example_dataset ''/sds'' [(''subjects'', subjects_appended)] []
             \<lparr>entries := [(''subjects'', Tabular ''/sds/subjects.xlsx''
                  \<lparr>columns = [''subject id'', ''age''],
                   rows = [(0, [(''subject id'', PStr ''sub-1''), (''age'', PStr ''30'')]),
                           (- 1, [(''age'', PStr ''31'')])]\<rparr>)]\<rparr>)"
  by code_simp

section \<open>Looking a subject up\<close>

text \<open>
  C8. For a string, \<^verbatim>\<open>get_subject\<close> returns what \<^verbatim>\<open>dict.get\<close> gives: for an id that the
  index does not have, it returns \<^verbatim>\<open>None\<close> and raises nothing.
\<close>

theorem get_subject_absent_returns_none:
  "get_subject ds (PStr sid) = Inr (map_of (subjects ds) sid)
   \<and> get_subject (example_dataset ''/sds'' [(''subjects'', subjects_example)] []) (PStr ''sub-1'') = Inr None"
  by (simp add: get_subject_def example_dataset_def)

section \<open>Updating a table from a JSON document\<close>

text \<open>
  C9. In \<^verbatim>\<open>update_by_json\<close>, a list at the top level of the document is stored as its
  text, but a list at the second level is stored as the list itself: the test
  \<^verbatim>\<open>isinstance(value, list)\<close> of the inner loop reads the variable of the outer loop.
\<close>

theorem update_by_json_nested_list_not_stringified:
  "update_by_json list_value str_of (example_dataset ''/sds'' [(''dataset_description'', description_example)] []) ''dataset_description''
     [(''Keywords'', PList [PStr ''heart'']),
      (''Contributor information'', PDict [(''Contributor role'', PList [PStr ''PI''])])]
   = Inr \<lparr>columns = [''Metadata element'', ''Value''],
      rows = [(0, [(''Metadata element'', PStr ''Keywords''),
                   (''Value'', PStr (str_of (PList [PStr ''heart''])))]),
              (1, [(''Metadata element'', PStr ''Contributor information'')]),
              (2, [(''Metadata element'', PStr ''    Contributor role''),
                   (''Value'', PList [PStr ''PI''])])]\<rparr>"
  by code_simp

section \<open>Recomputing the counts\<close>

text \<open>
  C5. With a description editor, \<^verbatim>\<open>_update_sub_sam_nums_in_dataset_description\<close> succeeds;
  afterwards every row of the description table named \<^verbatim>\<open>Number of subjects\<close> holds the
  number of immediate subdirectories of the primary folder, every row named
  \<^verbatim>\<open>Number of samples\<close> holds the sum, over those subdirectories, of the numbers of their
  immediate subdirectories, the rows are the same in number and labels, and the table is
  saved last. For the tree \<^verbatim>\<open>{sub-1: [sam-1, sam-2], sub-2: [sam-1]}\<close> the values are 2
  and 3.
\<close>

theorem count_recompute:
  fixes ds :: "('s, 'x) dataset_scheme"
  assumes editor: "map_of (metadata ds) ''dataset_description'' = Some d"
  shows "\<exists>d'. update_sub_sam_nums_in_dataset_description primary_folder ds =
            Inr (ds\<lparr>metadata := AList.update ''dataset_description'' d' (metadata ds),
                    saved := saved ds @ [(''dataset_description'', d')]\<rparr>)
          \<and> map fst (rows d') = map fst (rows d)
          \<and> (\<forall>(l, r) \<in> set (rows d').
                (cell r ''Metadata element'' = PStr ''Number of subjects'' \<longrightarrow>
                   cell r ''Value'' =
                     PInt (int (length (get_sub_folder_paths_in_folder (fs ds) primary_folder))))
              \<and> (cell r ''Metadata element'' = PStr ''Number of samples'' \<longrightarrow>
                   cell r ''Value'' =
                     PInt (int (sum_list
                       (map (\<lambda>sub. length (get_sub_folder_paths_in_folder (fs ds) sub))
                          (get_sub_folder_paths_in_folder (fs ds) primary_folder))))))"
proof -
  define n where "n = PInt (int (length (get_sub_folder_paths_in_folder (fs ds) primary_folder)))"
  define m where "m = PInt (int (length (sample_folders_of (fs ds)
                        (get_sub_folder_paths_in_folder (fs ds) primary_folder))))"
  define d' where "d' = set_values ''Number of samples'' m (set_values ''Number of subjects'' n d)"
  have res: "update_sub_sam_nums_in_dataset_description primary_folder ds =
            Inr (ds\<lparr>metadata := AList.update ''dataset_description'' d' (metadata ds),
                    saved := saved ds @ [(''dataset_description'', d')]\<rparr>)"
    using editor
    by (simp add: update_sub_sam_nums_in_dataset_description_def Let_def edit_metadata_def
        save_metadata_def update_conv' d'_def n_def m_def)
  have rows': "rows d' =
     map (\<lambda>(l, r). if cell r ''Metadata element'' = PStr ''Number of subjects''
                    then (l, AList.update ''Value'' n r)
                    else if cell r ''Metadata element'' = PStr ''Number of samples''
                    then (l, AList.update ''Value'' m r)
                    else (l, r)) (rows d)"
    unfolding d'_def by (rule set_values_twice) simp
  have labels: "map fst (rows d') = map fst (rows d)"
    unfolding rows' by (simp add: case_prod_unfold comp_def)
  have m_eq: "m = PInt (int (sum_list
                       (map (\<lambda>sub. length (get_sub_folder_paths_in_folder (fs ds) sub))
                          (get_sub_folder_paths_in_folder (fs ds) primary_folder))))"
    by (simp add: m_def length_sample_folders_of)
  have vals: "\<forall>(l, r) \<in> set (rows d').
                (cell r ''Metadata element'' = PStr ''Number of subjects'' \<longrightarrow> cell r ''Value'' = n)
              \<and> (cell r ''Metadata element'' = PStr ''Number of samples'' \<longrightarrow> cell r ''Value'' = m)"
    unfolding rows' by (auto simp: cell_update split: if_splits)
  show ?thesis
    using res labels vals unfolding n_def [symmetric] m_eq [symmetric] by blast
qed

theorem count_recompute_witness:
  "get_sub_folder_paths_in_folder (fs tree_dataset) ''/sds/primary''
     = [''/sds/primary/sub-1'', ''/sds/primary/sub-2'']
   \<and> map (get_sub_folder_paths_in_folder (fs tree_dataset)) [''/sds/primary/sub-1'', ''/sds/primary/sub-2'']
     = [[''/sds/primary/sub-1/sam-1'', ''/sds/primary/sub-1/sam-2''], [''/sds/primary/sub-2/sam-1'']]
   \<and> (\<exists>ds'. update_sub_sam_nums_in_dataset_description ''/sds/primary'' tree_dataset = Inr ds'
        \<and> map_of (metadata ds') ''dataset_description'' =
            Some \<lparr>columns = [''Metadata element'', ''Value''],
                  rows = [(0, [(''Metadata element'', PStr ''Number of subjects''), (''Value'', PInt 2)]),
                          (1, [(''Metadata element'', PStr ''Number of samples''), (''Value'', PInt 3)])]\<rparr>
        \<and> saved ds' =
            [(''dataset_description'',
              \<lparr>columns = [''Metadata element'', ''Value''],
               rows = [(0, [(''Metadata element'', PStr ''Number of subjects''), (''Value'', PInt 2)]),
                       (1, [(''Metadata element'', PStr ''Number of samples''), (''Value'', PInt 3)])]\<rparr>)])"
proof -
  have h: "map_of (metadata tree_dataset) ''dataset_description'' = Some counts_example"
    by code_simp
  have subs: "get_sub_folder_paths_in_folder (fs tree_dataset) ''/sds/primary''
     = [''/sds/primary/sub-1'', ''/sds/primary/sub-2'']"
    by code_simp
  have sams: "map (get_sub_folder_paths_in_folder (fs tree_dataset)) [''/sds/primary/sub-1'', ''/sds/primary/sub-2'']
     = [[''/sds/primary/sub-1/sam-1'', ''/sds/primary/sub-1/sam-2''], [''/sds/primary/sub-2/sam-1'']]"
    by code_simp
  have ev: "case update_sub_sam_nums_in_dataset_description ''/sds/primary'' tree_dataset of
              Inl e \<Rightarrow> False
            | Inr ds' \<Rightarrow>
               map_of (metadata ds') ''dataset_description'' =
                Some \<lparr>columns = [''Metadata element'', ''Value''],
                  rows = [(0, [(''Metadata element'', PStr ''Number of subjects''), (''Value'', PInt 2)]),
                          (1, [(''Metadata element'', PStr ''Number of samples''), (''Value'', PInt 3)])]\<rparr>
               \<and> saved ds' =
                [(''dataset_description'',
                  \<lparr>columns = [''Metadata element'', ''Value''],
                   rows = [(0, [(''Metadata element'', PStr ''Number of subjects''), (''Value'', PInt 2)]),
                       (1, [(''Metadata element'', PStr ''Number of samples''), (''Value'', PInt 3)])]\<rparr>)]"
    by code_simp
  from count_recompute [OF h, of "''/sds/primary''"] obtain d' where
    "update_sub_sam_nums_in_dataset_description ''/sds/primary'' tree_dataset =
       Inr (tree_dataset\<lparr>metadata := AList.update ''dataset_description'' d' (metadata tree_dataset),
                         saved := saved tree_dataset @ [(''dataset_description'', d')]\<rparr>)"
    by blast
  with ev subs sams show ?thesis
    by (auto split: sum.splits)
qed

section \<open>Deleting outside the primary tree\<close>

text \<open>
  C10. A successful \<^verbatim>\<open>delete_subject\<close> or \<^verbatim>\<open>delete_sample\<close> with a data type other than
  \<^verbatim>\<open>primary\<close> leaves the subjects, samples and description tables as they were, leaves the
  entries of the dataset as they were, and saves no editor but the manifest's.
\<close>

theorem non_primary_delete_frame:
  assumes "data_type \<noteq> ''primary''"
    and "delete_subject p data_type ds = Inr ds' \<or> delete_sample p data_type ds = Inr ds'"
  shows "map_of (metadata ds') ''subjects'' = map_of (metadata ds) ''subjects''
    \<and> map_of (metadata ds') ''samples'' = map_of (metadata ds) ''samples''
    \<and> map_of (metadata ds') ''dataset_description'' = map_of (metadata ds) ''dataset_description''
    \<and> entries ds' = entries ds
    \<and> filter (\<lambda>(name, df). name \<noteq> ''manifest'') (saved ds')
        = filter (\<lambda>(name, df). name \<noteq> ''manifest'') (saved ds)"
proof -
  have "unchanged_but_manifest ds ds'"
    using assms delete_subject_frame delete_sample_frame by blast
  then show ?thesis
    by (simp add: unchanged_but_manifest_def)
qed

theorem non_primary_delete_frame_witness:
  "\<exists>ds'. delete_subject ''/sds/derivative/sub-1'' ''derivative'' tree_dataset = Inr ds'
     \<and> \<not> path_exists (fs ds') ''/sds/derivative/sub-1''
     \<and> map_of (metadata ds') ''subjects'' = map_of (metadata tree_dataset) ''subjects''
     \<and> map_of (metadata ds') ''samples'' = map_of (metadata tree_dataset) ''samples''
     \<and> map_of (metadata ds') ''dataset_description'' = map_of (metadata tree_dataset) ''dataset_description''
     \<and> entries ds' = entries tree_dataset
     \<and> filter (\<lambda>(name, df). name \<noteq> ''manifest'') (saved ds')
        = filter (\<lambda>(name, df). name \<noteq> ''manifest'') (saved tree_dataset)"
proof -
  have ev: "case delete_subject ''/sds/derivative/sub-1'' ''derivative'' tree_dataset of
              Inl e \<Rightarrow> False
            | Inr ds' \<Rightarrow> \<not> path_exists (fs ds') ''/sds/derivative/sub-1''"
    by code_simp
  then obtain ds' where r: "delete_subject ''/sds/derivative/sub-1'' ''derivative'' tree_dataset = Inr ds'"
    and gone: "\<not> path_exists (fs ds') ''/sds/derivative/sub-1''"
    by (cases "delete_subject ''/sds/derivative/sub-1'' ''derivative'' tree_dataset") auto
  have dt: "''derivative'' \<noteq> ''primary''" by simp
  from non_primary_delete_frame [OF dt, of "''/sds/derivative/sub-1''" tree_dataset ds'] r gone
  show ?thesis by blast
qed

section \<open>Synchronizing the manifest\<close>

text \<open>
  C1. For a manifest in \<^verbatim>\<open>manifest.json\<close>, \<^verbatim>\<open>_modify_manifest\<close> changes the table it
  has read and hands it to the dataset, but never writes the file. The manifest holds the
  row of \<^verbatim>\<open>notes.txt\<close>. A first call for \<^verbatim>\<open>scan.TIF\<close> with the description
  \<^verbatim>\<open>first\<close> gives the dataset a manifest with the row of \<^verbatim>\<open>scan.TIF\<close>. A second
  call for the same file with the description \<^verbatim>\<open>second\<close> reads the file as it was,
  finds no row of \<^verbatim>\<open>scan.TIF\<close>, and gives the dataset a manifest in which the row of
  \<^verbatim>\<open>scan.TIF\<close> has the description \<^verbatim>\<open>second\<close>: the description of the existing row
  is not preserved. The file system is as it was. For a manifest in \<^verbatim>\<open>manifest.csv\<close>
  the call raises \<^verbatim>\<open>AttributeError\<close>.
\<close>

theorem modify_manifest_json_never_written:
  "modify_manifest_calls read_back ''/sds''
       [(''2023-05-01 10:00:00'', ''scan.TIF'', ''/sds/primary/sub-1/sam-1'', ''first'')]
       (manifest_dataset ''manifest.json'')
     = Inr ((manifest_dataset ''manifest.json'')
         \<lparr>entries := [(''manifest'', Tabular ''/sds/manifest.json''
                         (manifest_with (scan_row ''2023-05-01 10:00:00'' ''first'')))],
          metadata := [(''manifest'', manifest_with (scan_row ''2023-05-01 10:00:00'' ''first''))]\<rparr>)
   \<and> modify_manifest_calls read_back ''/sds''
       [(''2023-05-01 10:00:00'', ''scan.TIF'', ''/sds/primary/sub-1/sam-1'', ''first''),
        (''2023-05-02 11:30:00'', ''scan.TIF'', ''/sds/primary/sub-1/sam-1'', ''second'')]
       (manifest_dataset ''manifest.json'')
     = Inr ((manifest_dataset ''manifest.json'')
         \<lparr>entries := [(''manifest'', Tabular ''/sds/manifest.json''
                         (manifest_with (scan_row ''2023-05-02 11:30:00'' ''second'')))],
          metadata := [(''manifest'', manifest_with (scan_row ''2023-05-02 11:30:00'' ''second''))]\<rparr>)
   \<and> modify_manifest read_back ''2023-05-01 10:00:00'' ''scan.TIF'' ''/sds''
       ''/sds/primary/sub-1/sam-1'' ''first'' (manifest_dataset ''manifest.csv'')
     = Inl AttributeError"
  by code_simp

section \<open>Adding the data of a sample\<close>




section \<open>Deleting a file\<close>

text \<open>
  C7. \<^verbatim>\<open>delete_data\<close> looks the manifest row up by the path with every occurrence of the
  dataset path deleted. For the dataset at \<^verbatim>\<open>/data\<close> and its file
  \<^verbatim>\<open>primary/sub-1/sam-1/data.txt\<close> that key is \<^verbatim>\<open>primary/sub-1/sam-1.txt\<close>: the file is
  deleted and the manifest saved, but the row of the file stays.
\<close>

theorem delete_data_keeps_manifest_row:
  "is_file (fs data_dataset) ''/data/primary/sub-1/sam-1/data.txt''
   \<and> manifest_key (dataset_path data_dataset) ''/data/primary/sub-1/sam-1/data.txt''
       = ''primary/sub-1/sam-1.txt''
   \<and> delete_data ''/data/primary/sub-1/sam-1/data.txt'' data_dataset
       = Inr (data_dataset
               \<lparr>fs := unlink ''/data/primary/sub-1/sam-1/data.txt'' (fs data_dataset),
                saved := [(''manifest'', data_manifest)]\<rparr>)"
  by code_simp

end
